theory Spec2Isabelle
  imports Main "HOL-Library.Word"
begin

section \<open>Values\<close>

text \<open>
  Python \<open>bytes\<close> and \<open>bytearray\<close> are lists of 8-bit words.  Python \<open>str\<close> is
  \<open>string\<close>; a character outside ASCII stands as its UTF-8 bytes, so that concatenation,
  equality and prefixes of the model agree with those of the program.
\<close>

type_synonym bytes = "8 word list"

text \<open>
  An instance of Python's \<open>Exception\<close>, the class both \<open>except Exception as e\<close> clauses
  of \<open>main.py\<close> catch.  All the program reads of it is \<open>str(e)\<close>.  What is raised
  outside that class (\<open>KeyboardInterrupt\<close>, \<open>SystemExit\<close>, the cancellation of the task)
  ends the interpreter's run of the handler and is not part of the model.
\<close>

datatype exn = Exception (str: string)

text \<open>\<open>telegram.Voice\<close> and \<open>telegram.Audio\<close>: an attachment the servers hold, by its file id.\<close>

datatype attachment = Attachment string

text \<open>
  \<open>telegram.Message\<close>, as far as \<open>main.py\<close> reads it: the optional voice note and the
  optional audio attachment.
\<close>

record tg_message =
  voice :: "attachment option"
  audio :: "attachment option"

text \<open>
  \<open>telegram.Update\<close>.  \<open>update.message\<close> is \<open>None\<close> when the update is not a new
  message: for an edited message and for a channel post the message is in another
  attribute of the update, which \<open>main.py\<close> never reads.  \<open>run\<close> registers the handlers
  for every kind of update, so they are called for these too.
\<close>

record update =
  message :: "tg_message option"

text \<open>\<open>telegram.File\<close>, the result of \<open>get_file()\<close>, by its path.\<close>

datatype tg_file = File string

text \<open>A message the bot has sent (the result of \<open>reply_text\<close>), by its id.\<close>

datatype sent_message = Message nat

text \<open>\<open>pydub.AudioSegment\<close>: decoded audio, by its raw sample data.\<close>

datatype audio_segment = AudioSegment bytes

text \<open>The two dictionaries of \<open>parts\<close> in \<open>transcribe_audio\<close>.\<close>

datatype part = InlineData (mime_type: string) (data: string) | Text string

text \<open>
  The response object of \<open>generate_content\<close>.  Its property \<open>.text\<close> returns the text or
  raises (a response without a text part).
\<close>

datatype response = Response (response_text: "exn + string")

subsection \<open>\<open>io.BytesIO\<close>\<close>

record bytesio =
  buf :: bytes
  pos :: nat

definition BytesIO :: "bytes \<Rightarrow> bytesio" where
  "BytesIO initial = \<lparr>buf = initial, pos = 0\<rparr>"

text \<open>\<open>read()\<close>: everything from the position to the end; the position moves to the end.\<close>

definition bytesio_read :: "bytesio \<Rightarrow> bytes \<times> bytesio" where
  "bytesio_read f = (drop (pos f) (buf f), f\<lparr>pos := max (pos f) (length (buf f))\<rparr>)"

text \<open>
  \<open>write(b)\<close>: the bytes overwrite the buffer from the position on (zero bytes fill a
  gap when the position is beyond the end); the position moves behind them.
\<close>

definition bytesio_write :: "bytesio \<Rightarrow> bytes \<Rightarrow> bytesio" where
  "bytesio_write f b =
     \<lparr>buf = take (pos f) (buf f) @ replicate (pos f - length (buf f)) 0 @ b
             @ drop (pos f + length b) (buf f),
      pos = pos f + length b\<rparr>"

definition bytesio_seek :: "bytesio \<Rightarrow> nat \<Rightarrow> bytesio" where
  "bytesio_seek f n = f\<lparr>pos := n\<rparr>"

subsection \<open>\<open>base64.b64encode\<close>\<close>

definition b64_alphabet :: string where
  "b64_alphabet = ''ABCDEFGHIJKLMNOPQRSTUVWXYZabcdefghijklmnopqrstuvwxyz0123456789+/''"

definition b64_char :: "nat \<Rightarrow> char" where
  "b64_char n = b64_alphabet ! (n mod 64)"

text \<open>
  The standard alphabet with \<open>=\<close> padding: three bytes give four characters.
  \<open>.decode()\<close> of the result is the identity, the output being ASCII.
\<close>

fun b64encode :: "bytes \<Rightarrow> string" where
  "b64encode [] = []"
| "b64encode [a] =
     (let n = unat a * 65536
      in [b64_char (n div 262144), b64_char (n div 4096), CHR ''='', CHR ''=''])"
| "b64encode [a, b] =
     (let n = unat a * 65536 + unat b * 256
      in [b64_char (n div 262144), b64_char (n div 4096), b64_char (n div 64), CHR ''=''])"
| "b64encode (a # b # c # rest) =
     (let n = unat a * 65536 + unat b * 256 + unat c
      in [b64_char (n div 262144), b64_char (n div 4096), b64_char (n div 64), b64_char n]
         @ b64encode rest)"

section \<open>The world outside the program\<close>

text \<open>
  What the Telegram servers, pydub (with ffmpeg) and the generative model answer is not
  code of this repository: it is a parameter of every function below.  Each call either
  returns (\<open>Inr\<close>) or raises (\<open>Inl\<close>).  The answer to a call is a function of its
  arguments; the three replies of one run of \<open>handle_audio\<close> have three different texts,
  so each of them may be delivered or refused independently of the others.
  \<open>generate_content w name parts\<close> stands for
  \<open>genai.GenerativeModel(name).generate_content(parts)\<close>.
\<close>

record env =
  reply_text :: "string \<Rightarrow> exn + sent_message"
  get_file :: "attachment \<Rightarrow> exn + tg_file"
  download_as_bytearray :: "tg_file \<Rightarrow> exn + bytes"
  from_file :: "bytes \<Rightarrow> exn + audio_segment"
  export :: "audio_segment \<Rightarrow> string \<Rightarrow> exn + bytes"
  generate_content :: "string \<Rightarrow> part list \<Rightarrow> exn + response"
  delete :: "sent_message \<Rightarrow> exn + unit"

text \<open>
  What a handler does to the world, in the order it does it: every call with its arguments
  and with what it returned or raised, and every line written to the log.
\<close>

datatype event =
    ReplyText string "exn + sent_message"
  | GetFile attachment "exn + tg_file"
  | DownloadAsBytearray tg_file "exn + bytes"
  | FromFile bytes "exn + audio_segment"
  | Export audio_segment string "exn + bytes"
  | GenerateContent string "part list" "exn + response"
  | Delete sent_message "exn + unit"
  | LogError string

section \<open>The program state\<close>

text \<open>
  An instance of a Python class holds its attributes in a dictionary, and every method
  that has the instance may assign to it.  The value of an attribute is one of the values
  the program handles.
\<close>

datatype pyval = PyNone | PyStr string | PyBytes bytes | PyInt int

type_synonym instance_dict = "(string \<times> pyval) list"

text \<open>
  \<open>class AudioTranscriber\<close> declares no attribute: its state is what its dictionary
  holds.  \<open>class TelegramBot\<close> declares one, \<open>transcriber\<close>; \<open>bot_dict\<close> holds the others.
  No function of \<open>main.py\<close> has a \<open>global\<close> statement or opens a file, and every call
  that leaves the program is an event of the trace: the state of these two objects is all
  that the program itself could keep from one update to the next.
\<close>

record audio_transcriber =
  transcriber_dict :: instance_dict

record telegram_bot =
  transcriber :: audio_transcriber
  bot_dict :: instance_dict

text \<open>\<open>AudioTranscriber()\<close> and \<open>TelegramBot.__init__\<close>\<close>

definition AudioTranscriber :: audio_transcriber where
  "AudioTranscriber = \<lparr>transcriber_dict = []\<rparr>"

definition init :: telegram_bot where
  "init = \<lparr>transcriber = AudioTranscriber, bot_dict = []\<rparr>"

subsection \<open>Statements\<close>

text \<open>
  An \<open>async def\<close> of the program is a function from the state of the bot to its result
  (returned or raised), the state it leaves and the events it caused.  Every \<open>await\<close> of
  \<open>main.py\<close> waits for the awaited call, so a coroutine is its body run in sequence.
\<close>

type_synonym 'a io = "telegram_bot \<Rightarrow> (exn + 'a) \<times> telegram_bot \<times> event list"

definition outcome :: "(exn + 'a) \<times> telegram_bot \<times> event list \<Rightarrow> exn + 'a" where
  "outcome r = fst r"

definition final_state :: "(exn + 'a) \<times> telegram_bot \<times> event list \<Rightarrow> telegram_bot" where
  "final_state r = fst (snd r)"

definition trace :: "(exn + 'a) \<times> telegram_bot \<times> event list \<Rightarrow> event list" where
  "trace r = snd (snd r)"

definition io_return :: "'a \<Rightarrow> 'a io" where
  "io_return x = (\<lambda>s. (Inr x, s, []))"

definition io_raise :: "exn \<Rightarrow> 'a io" where
  "io_raise e = (\<lambda>s. (Inl e, s, []))"

text \<open>\<open>self\<close>\<close>

definition io_self :: "telegram_bot io" where
  "io_self = (\<lambda>s. (Inr s, s, []))"

text \<open>A call into the world: the event holds the call and its result.\<close>

definition io_call :: "(exn + 'a \<Rightarrow> event) \<Rightarrow> exn + 'a \<Rightarrow> 'a io" where
  "io_call ev r = (\<lambda>s. (r, s, [ev r]))"

text \<open>
  \<open>logger.error\<close>: the logging module reports a failure of its handlers itself and
  returns.
\<close>

definition logger_error :: "string \<Rightarrow> unit io" where
  "logger_error msg = (\<lambda>s. (Inr (), s, [LogError msg]))"

text \<open>One statement after another: an exception of the first leaves the second out.\<close>

definition io_bind :: "'a io \<Rightarrow> ('a \<Rightarrow> 'b io) \<Rightarrow> 'b io" where
  "io_bind m f = (\<lambda>s.
     case m s of
       (Inl e, s', t) \<Rightarrow> (Inl e, s', t)
     | (Inr x, s', t) \<Rightarrow> (case f x s' of (r, s'', t') \<Rightarrow> (r, s'', t @ t')))"

text \<open>\<open>try: m except Exception as e: h e\<close>\<close>

definition io_try :: "'a io \<Rightarrow> (exn \<Rightarrow> 'a io) \<Rightarrow> 'a io" where
  "io_try m h = (\<lambda>s.
     case m s of
       (Inl e, s', t) \<Rightarrow> (case h e s' of (r, s'', t') \<Rightarrow> (r, s'', t @ t'))
     | (Inr x, s', t) \<Rightarrow> (Inr x, s', t))"

section \<open>\<open>class AudioTranscriber\<close>\<close>

definition download_audio_file :: "env \<Rightarrow> audio_transcriber \<Rightarrow> tg_file \<Rightarrow> bytesio io" where
  "download_audio_file w self file =
     io_bind (io_call (DownloadAsBytearray file) (download_as_bytearray w file)) (\<lambda>binary.
     io_return (BytesIO binary))"

text \<open>
  \<open>AudioSegment.from_file\<close> reads the stream it is given; \<open>audio.export\<close> writes what
  the encoder produces into \<open>wav_io\<close>.
\<close>

definition convert_to_wav :: "env \<Rightarrow> audio_transcriber \<Rightarrow> bytesio \<Rightarrow> bytesio io" where
  "convert_to_wav w self audio_data =
     (let (content, audio_data) = bytesio_read audio_data in
      io_bind (io_call (FromFile content) (from_file w content)) (\<lambda>audio.
      let wav_io = BytesIO [] in
      io_bind (io_call (Export audio ''wav'') (export w audio ''wav'')) (\<lambda>encoded.
      let wav_io = bytesio_write wav_io encoded;
          wav_io = bytesio_seek wav_io 0
      in io_return wav_io)))"

definition newline :: string where
  "newline = [CHR 0x0A]"

definition prompt :: string where
  "prompt =
     ''Please transcribe this audio.'' @ newline @
     ''                    '' @ newline @
     ''                    If the audio is in English:'' @ newline @
     ''                    - Provide ONLY the transcription, nothing else'' @ newline @
     ''                    '' @ newline @
     ''                    If the audio is NOT in English:'' @ newline @
     ''                    Original: [transcription in original language]'' @ newline @
     ''                    Translation: [English translation]''"

definition model_name :: string where
  "model_name = ''gemini-1.5-pro''"

definition transcribe_audio :: "env \<Rightarrow> audio_transcriber \<Rightarrow> bytesio \<Rightarrow> string io" where
  "transcribe_audio w self audio_file =
     io_try
       (let (audio_bytes, audio_file) = bytesio_read audio_file;
            audio_b64 = b64encode audio_bytes;
            parts = [InlineData ''audio/wav'' audio_b64, Text prompt]
        in io_bind (io_call (GenerateContent model_name parts)
                      (generate_content w model_name parts)) (\<lambda>response.
           case response_text response of
             Inl e \<Rightarrow> io_raise e
           | Inr t \<Rightarrow> io_return t))
       (\<lambda>e. io_bind (logger_error (''Transcription error: '' @ str e)) (\<lambda>_.
            io_return (''Error transcribing audio: '' @ str e)))"

definition process_audio :: "env \<Rightarrow> audio_transcriber \<Rightarrow> bytesio \<Rightarrow> string io" where
  "process_audio w self audio_file =
     io_bind (convert_to_wav w self audio_file) (\<lambda>wav_file.
     io_bind (transcribe_audio w self wav_file) (\<lambda>transcription.
     io_return transcription))"

section \<open>\<open>class TelegramBot\<close>\<close>

definition welcome_message :: string where
  "welcome_message =
     [CHR 0xF0, CHR 0x9F, CHR 0x91, CHR 0x8B] @ '' Welcome to the Audio Transcriber Bot!''
     @ newline @ newline @
     ''Send me any voice message or audio file, and I'll transcribe it for you.'' @ newline @
     ''If the audio is in Russian or another language, I'll provide an English translation too!''"

definition help_message :: string where
  "help_message =
     [CHR 0xF0, CHR 0x9F, CHR 0x8E, CHR 0xAF] @ '' Here's how to use the bot:''
     @ newline @ newline @
     ''1. Send any voice message or audio file'' @ newline @
     ''2. Wait for processing (this may take a moment)'' @ newline @
     ''3. Receive your transcription and translation'' @ newline @ newline @
     ''Commands:'' @ newline @
     ''/start - Start the bot'' @ newline @
     ''/help - Show this help message''"

text \<open>
  What the access to an attribute of \<open>None\<close> raises: \<open>update.message.reply_text\<close> when
  \<open>update.message\<close> is \<open>None\<close>, \<open>update.message.audio.get_file\<close> when
  \<open>update.message.audio\<close> is.
\<close>

definition attribute_error :: "string \<Rightarrow> exn" where
  "attribute_error name = Exception ([CHR 0x27] @ ''NoneType'' @ [CHR 0x27]
     @ '' object has no attribute '' @ [CHR 0x27] @ name @ [CHR 0x27])"

text \<open>\<open>await update.message.reply_text(t)\<close>\<close>

definition message_reply_text :: "env \<Rightarrow> update \<Rightarrow> string \<Rightarrow> sent_message io" where
  "message_reply_text w upd t =
     (case message upd of
        None \<Rightarrow> io_raise (attribute_error ''reply_text'')
      | Some msg \<Rightarrow> io_call (ReplyText t) (reply_text w t))"

definition start :: "env \<Rightarrow> update \<Rightarrow> unit io" where
  "start w upd =
     io_bind (message_reply_text w upd welcome_message) (\<lambda>_.
     io_return ())"

text \<open>\<open>TelegramBot.help\<close>\<close>

definition help_command :: "env \<Rightarrow> update \<Rightarrow> unit io" where
  "help_command w upd =
     io_bind (message_reply_text w upd help_message) (\<lambda>_.
     io_return ())"

definition processing_text :: string where
  "processing_text =
     [CHR 0xF0, CHR 0x9F, CHR 0x8E, CHR 0xB5] @ '' Processing your audio... Please wait.''"

definition transcription_header :: string where
  "transcription_header =
     [CHR 0xF0, CHR 0x9F, CHR 0x93, CHR 0x9D] @ '' Transcription and Translation:''
     @ newline @ newline"

definition error_header :: string where
  "error_header =
     [CHR 0xE2, CHR 0x9D, CHR 0x8C] @ '' Sorry, there was an error processing your audio: ''"

text \<open>
  The first statement of the \<open>try\<close> block raises when there is no message, and then the
  \<open>except\<close> clause, which replies through \<open>update.message\<close> as well, raises again.
\<close>

definition handle_audio :: "env \<Rightarrow> update \<Rightarrow> unit io" where
  "handle_audio w upd =
     io_try
       (io_bind (message_reply_text w upd processing_text) (\<lambda>processing_message.
        io_bind (case message upd of
                   None \<Rightarrow> io_raise (attribute_error ''voice'')
                 | Some msg \<Rightarrow>
                     (case voice msg of
                        Some v \<Rightarrow> io_call (GetFile v) (get_file w v)
                      | None \<Rightarrow>
                          (case audio msg of
                             Some a \<Rightarrow> io_call (GetFile a) (get_file w a)
                           | None \<Rightarrow> io_raise (attribute_error ''get_file'')))) (\<lambda>file.
        io_bind io_self (\<lambda>self.
        io_bind (download_audio_file w (transcriber self) file) (\<lambda>audio_data.
        io_bind (process_audio w (transcriber self) audio_data) (\<lambda>transcription.
        io_bind (message_reply_text w upd (transcription_header @ transcription)) (\<lambda>_.
        io_bind (io_call (Delete processing_message) (delete w processing_message)) (\<lambda>_.
        io_return ()))))))))
       (\<lambda>e. io_bind (logger_error (''Error processing audio: '' @ str e)) (\<lambda>_.
            io_bind (message_reply_text w upd (error_header @ str e)) (\<lambda>_.
            io_return ())))"

section \<open>\<open>TelegramBot.run\<close>\<close>

text \<open>
  \<open>run\<close> registers the three handlers.  Which of them the framework calls for an update
  is decided by its filters, outside this repository; an exception that leaves a handler is
  logged by the framework, and the bot goes on with the state the handler left.
\<close>

datatype handler = Start | Help | HandleAudio

definition dispatch :: "env \<Rightarrow> handler \<Rightarrow> update \<Rightarrow> unit io" where
  "dispatch w h upd =
     (case h of
        Start \<Rightarrow> start w upd
      | Help \<Rightarrow> help_command w upd
      | HandleAudio \<Rightarrow> handle_audio w upd)"

text \<open>The state of the bot after a history of updates, each handled in its own world.\<close>

fun run_updates :: "(env \<times> handler \<times> update) list \<Rightarrow> telegram_bot \<Rightarrow> telegram_bot" where
  "run_updates [] s = s"
| "run_updates ((w, h, upd) # rest) s = run_updates rest (final_state (dispatch w h upd s))"

section \<open>Reading a trace\<close>

text \<open>The requests sent to the generative model: the model name and the parts.\<close>

fun requests :: "event list \<Rightarrow> (string \<times> part list) list" where
  "requests [] = []"
| "requests (GenerateContent m p r # es) = (m, p) # requests es"
| "requests (e # es) = requests es"

text \<open>A reply that starts with the header of the transcription reply.\<close>

definition is_transcription_reply :: "string \<Rightarrow> bool" where
  "is_transcription_reply t = (take (length transcription_header) t = transcription_header)"

text \<open>
  The steps of the pipeline, numbered: the download (0), the transcoding, which is the two
  calls of pydub (decoding, 1, and encoding, 2), the call of the remote model (3) and the
  transcription reply (4).  Every other event belongs to no step.
\<close>

fun stage :: "event \<Rightarrow> nat option" where
  "stage (DownloadAsBytearray f r) = Some 0"
| "stage (FromFile b r) = Some 1"
| "stage (Export seg fmt r) = Some 2"
| "stage (GenerateContent m p r) = Some 3"
| "stage (ReplyText t r) = (if is_transcription_reply t then Some 4 else None)"
| "stage e = None"

text \<open>The call returned.\<close>

fun succeeded :: "event \<Rightarrow> bool" where
  "succeeded (ReplyText t r) = (\<not> isl r)"
| "succeeded (GetFile a r) = (\<not> isl r)"
| "succeeded (DownloadAsBytearray f r) = (\<not> isl r)"
| "succeeded (FromFile b r) = (\<not> isl r)"
| "succeeded (Export seg fmt r) = (\<not> isl r)"
| "succeeded (GenerateContent m p r) = (\<not> isl r)"
| "succeeded (Delete m r) = (\<not> isl r)"
| "succeeded (LogError msg) = True"

text \<open>Every element that satisfies \<open>Q\<close> has an element that satisfies \<open>P\<close> before it.\<close>

definition each_preceded :: "('a \<Rightarrow> bool) \<Rightarrow> ('a \<Rightarrow> bool) \<Rightarrow> 'a list \<Rightarrow> bool" where
  "each_preceded P Q xs \<longleftrightarrow>
     (\<forall>pre x post. xs = pre @ x # post \<and> Q x \<longrightarrow> (\<exists>y \<in> set pre. P y))"

section \<open>The runs of \<open>handle_audio\<close>, named\<close>

text \<open>
  The definitions of this section are not code of the program: they name the pieces of a
  run of \<open>handle_audio\<close>, and \<open>handle_audio_run\<close> below proves that the runs of the program
  are made of them.
\<close>

text \<open>The \<open>parts\<close> list \<open>transcribe_audio\<close> builds from the bytes it read.\<close>

definition request :: "bytes \<Rightarrow> part list" where
  "request wav = [InlineData ''audio/wav'' (b64encode wav), Text prompt]"

text \<open>What \<open>transcribe_audio\<close> returns for a WAV stream, and the events it causes.\<close>

definition transcription :: "env \<Rightarrow> bytes \<Rightarrow> string" where
  "transcription w wav =
     (case generate_content w model_name (request wav) of
        Inl e \<Rightarrow> ''Error transcribing audio: '' @ str e
      | Inr resp \<Rightarrow>
          (case response_text resp of
             Inl e \<Rightarrow> ''Error transcribing audio: '' @ str e
           | Inr t \<Rightarrow> t))"

definition transcribe_events :: "env \<Rightarrow> bytes \<Rightarrow> event list" where
  "transcribe_events w wav =
     GenerateContent model_name (request wav) (generate_content w model_name (request wav))
     # (case generate_content w model_name (request wav) of
          Inl e \<Rightarrow> [LogError (''Transcription error: '' @ str e)]
        | Inr resp \<Rightarrow>
            (case response_text resp of
               Inl e \<Rightarrow> [LogError (''Transcription error: '' @ str e)]
             | Inr t \<Rightarrow> []))"

text \<open>
  The \<open>except\<close> clause of \<open>handle_audio\<close>, entered with \<open>e\<close> after the events \<open>t\<close>, for an
  update that has a message.
\<close>

definition except_run ::
  "env \<Rightarrow> telegram_bot \<Rightarrow> event list \<Rightarrow> exn \<Rightarrow> (exn + unit) \<times> telegram_bot \<times> event list" where
  "except_run w s t e =
     (case reply_text w (error_header @ str e) of Inl e' \<Rightarrow> Inl e' | Inr _ \<Rightarrow> Inr (),
      s,
      t @ [LogError (''Error processing audio: '' @ str e),
           ReplyText (error_header @ str e) (reply_text w (error_header @ str e))])"

text \<open>The attachment \<open>handle_audio\<close> asks the file of.\<close>

definition chosen :: "tg_message \<Rightarrow> attachment option" where
  "chosen msg = (case voice msg of Some v \<Rightarrow> Some v | None \<Rightarrow> audio msg)"

text \<open>The events up to a download that returned, and up to the end of \<open>process_audio\<close>.\<close>

definition fetched :: "sent_message \<Rightarrow> attachment \<Rightarrow> tg_file \<Rightarrow> bytes \<Rightarrow> event list" where
  "fetched pm a f b =
     [ReplyText processing_text (Inr pm), GetFile a (Inr f), DownloadAsBytearray f (Inr b)]"

definition transcribed ::
  "env \<Rightarrow> sent_message \<Rightarrow> attachment \<Rightarrow> tg_file \<Rightarrow> bytes \<Rightarrow> audio_segment \<Rightarrow> bytes
   \<Rightarrow> event list" where
  "transcribed w pm a f b seg wav =
     fetched pm a f b @ [FromFile b (Inr seg), Export seg ''wav'' (Inr wav)]
     @ transcribe_events w wav"

section \<open>Example worlds\<close>

text \<open>
  A world in which every call returns.  The file of the attachment \<open>audio-1\<close> holds three
  bytes (the tag of an MP3 file), every other file four (the magic number of an Ogg
  container); the encoder puts \<open>RIFF\<close> before what it is given; the model answers \<open>hola\<close>.
\<close>

definition ogg_bytes :: bytes where
  "ogg_bytes = [0x4F, 0x67, 0x67, 0x53]"

definition mp3_bytes :: bytes where
  "mp3_bytes = [0x49, 0x44, 0x33]"

definition wav_bytes :: bytes where
  "wav_bytes = [0x52, 0x49, 0x46, 0x46, 0x4F, 0x67, 0x67, 0x53]"

definition example_world :: env where
  "example_world = \<lparr>
     reply_text = (\<lambda>t. Inr (Message 7)),
     get_file = (\<lambda>a. case a of Attachment i \<Rightarrow> Inr (File i)),
     download_as_bytearray =
       (\<lambda>f. case f of File i \<Rightarrow> if i = ''audio-1'' then Inr mp3_bytes else Inr ogg_bytes),
     from_file = (\<lambda>b. Inr (AudioSegment b)),
     export = (\<lambda>seg fmt. case seg of AudioSegment b \<Rightarrow> Inr ([0x52, 0x49, 0x46, 0x46] @ b)),
     generate_content = (\<lambda>m p. Inr (Response (Inr ''hola''))),
     delete = (\<lambda>m. Inr ())\<rparr>"

text \<open>The same world with a download that raises, and with a remote model that raises.\<close>

definition offline_world :: env where
  "offline_world =
     example_world\<lparr>download_as_bytearray := (\<lambda>f. Inl (Exception ''timed out''))\<rparr>"

definition quota_world :: env where
  "quota_world =
     example_world\<lparr>generate_content := (\<lambda>m p. Inl (Exception ''quota exceeded''))\<rparr>"

text \<open>
  A world whose download raises and whose servers accept the processing message and
  refuse every other reply; and one whose servers refuse every reply.
\<close>

definition flood_world :: env where
  "flood_world =
     offline_world\<lparr>reply_text :=
       (\<lambda>t. if t = processing_text then Inr (Message 7)
            else Inl (Exception ''flood control''))\<rparr>"

definition silent_world :: env where
  "silent_world = example_world\<lparr>reply_text := (\<lambda>t. Inl (Exception ''forbidden''))\<rparr>"

text \<open>
  A message with a voice note and an audio attachment, one with the audio only, and an
  update that is not a new message.
\<close>

definition example_update :: update where
  "example_update =
     \<lparr>message = Some \<lparr>voice = Some (Attachment ''voice-1''),
                       audio = Some (Attachment ''audio-1'')\<rparr>\<rparr>"

definition audio_update :: update where
  "audio_update = \<lparr>message = Some \<lparr>voice = None, audio = Some (Attachment ''audio-2'')\<rparr>\<rparr>"

definition channel_post :: update where
  "channel_post = \<lparr>message = None\<rparr>"

text \<open>A bot whose two objects hold attributes.\<close>

definition busy_bot :: telegram_bot where
  "busy_bot =
     \<lparr>transcriber = \<lparr>transcriber_dict = [(''cache'', PyBytes ogg_bytes)]\<rparr>,
      bot_dict = [(''last_chat'', PyInt 42)]\<rparr>"

section \<open>The standard library, tested\<close>

text \<open>The test vectors of RFC 4648 for \<open>b64encode\<close>, and one with the last two letters.\<close>

lemma b64encode_rfc4648:
  "b64encode [] = ''''"
  "b64encode [0x66] = ''Zg==''"
  "b64encode [0x66, 0x6F] = ''Zm8=''"
  "b64encode [0x66, 0x6F, 0x6F] = ''Zm9v''"
  "b64encode [0x66, 0x6F, 0x6F, 0x62] = ''Zm9vYg==''"
  "b64encode [0x66, 0x6F, 0x6F, 0x62, 0x61] = ''Zm9vYmE=''"
  "b64encode [0x66, 0x6F, 0x6F, 0x62, 0x61, 0x72] = ''Zm9vYmFy''"
  "b64encode [0xFF, 0xFE, 0xFD, 0x00, 0x01] = ''//79AAE=''"
  by (simp_all add: b64_char_def b64_alphabet_def)

lemma b64encode_wav_bytes: "b64encode wav_bytes = ''UklGRk9nZ1M=''"
  by (simp add: wav_bytes_def b64_char_def b64_alphabet_def)

text \<open>What is written into a fresh stream and read after \<open>seek(0)\<close> is all of it.\<close>

lemma read_after_seek:
  "fst (bytesio_read (bytesio_seek (bytesio_write (BytesIO []) b) 0)) = b"
  by (simp add: BytesIO_def bytesio_read_def bytesio_write_def bytesio_seek_def)

section \<open>The runs of the program\<close>

lemmas io_defs = io_return_def io_raise_def io_self_def io_call_def logger_error_def
  io_bind_def io_try_def

lemmas bytesio_defs = BytesIO_def bytesio_read_def bytesio_write_def bytesio_seek_def

lemma outcome_triple [simp]: "outcome (r, s, t) = r"
  by (simp add: outcome_def)

lemma trace_triple [simp]: "trace (r, s, t) = t"
  by (simp add: trace_def)

lemma download_audio_file_run:
  "download_audio_file w self f s =
     (case download_as_bytearray w f of
        Inl e \<Rightarrow> (Inl e, s, [DownloadAsBytearray f (Inl e)])
      | Inr b \<Rightarrow> (Inr (BytesIO b), s, [DownloadAsBytearray f (Inr b)]))"
  by (simp add: download_audio_file_def io_defs split: sum.splits)

lemma convert_to_wav_run:
  "convert_to_wav w self (BytesIO b) s =
     (case from_file w b of
        Inl e \<Rightarrow> (Inl e, s, [FromFile b (Inl e)])
      | Inr seg \<Rightarrow>
          (case export w seg ''wav'' of
             Inl e \<Rightarrow> (Inl e, s, [FromFile b (Inr seg), Export seg ''wav'' (Inl e)])
           | Inr wav \<Rightarrow>
               (Inr (BytesIO wav), s, [FromFile b (Inr seg), Export seg ''wav'' (Inr wav)])))"
  by (simp add: convert_to_wav_def io_defs bytesio_defs split: sum.splits)

lemma transcribe_audio_run:
  "transcribe_audio w self (BytesIO wav) s =
     (Inr (transcription w wav), s, transcribe_events w wav)"
  by (simp add: transcribe_audio_def request_def transcription_def transcribe_events_def
      io_defs bytesio_defs split: sum.splits)

lemma transcribe_audio_outcome:
  "outcome (transcribe_audio w self audio_file s) =
     Inr (case generate_content w model_name
                 [InlineData ''audio/wav'' (b64encode (fst (bytesio_read audio_file))),
                  Text prompt] of
            Inl e \<Rightarrow> ''Error transcribing audio: '' @ str e
          | Inr resp \<Rightarrow>
              (case response_text resp of
                 Inl e \<Rightarrow> ''Error transcribing audio: '' @ str e
               | Inr t \<Rightarrow> t))"
  by (simp add: transcribe_audio_def io_defs outcome_def bytesio_read_def split: sum.splits)

lemma process_audio_run:
  "process_audio w self (BytesIO b) s =
     (case from_file w b of
        Inl e \<Rightarrow> (Inl e, s, [FromFile b (Inl e)])
      | Inr seg \<Rightarrow>
          (case export w seg ''wav'' of
             Inl e \<Rightarrow> (Inl e, s, [FromFile b (Inr seg), Export seg ''wav'' (Inl e)])
           | Inr wav \<Rightarrow>
               (Inr (transcription w wav), s,
                [FromFile b (Inr seg), Export seg ''wav'' (Inr wav)]
                @ transcribe_events w wav)))"
  by (simp add: process_audio_def convert_to_wav_run transcribe_audio_run io_bind_def
      io_return_def split: sum.splits)


text \<open>Every run of \<open>handle_audio\<close>, by what the world answers.\<close>

lemma handle_audio_no_message:
  "message upd = None \<Longrightarrow>
   handle_audio w upd s =
     (Inl (attribute_error ''reply_text''), s,
      [LogError (''Error processing audio: '' @ str (attribute_error ''reply_text''))])"
  by (simp add: handle_audio_def message_reply_text_def io_defs)

lemma handle_audio_run:
  "message upd = Some msg \<Longrightarrow>
   handle_audio w upd s =
     (case reply_text w processing_text of
        Inl e \<Rightarrow> except_run w s [ReplyText processing_text (Inl e)] e
      | Inr pm \<Rightarrow>
        (case chosen msg of
           None \<Rightarrow>
             except_run w s [ReplyText processing_text (Inr pm)] (attribute_error ''get_file'')
         | Some a \<Rightarrow>
           (case get_file w a of
              Inl e \<Rightarrow>
                except_run w s [ReplyText processing_text (Inr pm), GetFile a (Inl e)] e
            | Inr f \<Rightarrow>
              (case download_as_bytearray w f of
                 Inl e \<Rightarrow>
                   except_run w s
                     [ReplyText processing_text (Inr pm), GetFile a (Inr f),
                      DownloadAsBytearray f (Inl e)] e
               | Inr b \<Rightarrow>
                 (case from_file w b of
                    Inl e \<Rightarrow> except_run w s (fetched pm a f b @ [FromFile b (Inl e)]) e
                  | Inr seg \<Rightarrow>
                    (case export w seg ''wav'' of
                       Inl e \<Rightarrow>
                         except_run w s
                           (fetched pm a f b
                            @ [FromFile b (Inr seg), Export seg ''wav'' (Inl e)]) e
                     | Inr wav \<Rightarrow>
                       (case reply_text w (transcription_header @ transcription w wav) of
                          Inl e \<Rightarrow>
                            except_run w s
                              (transcribed w pm a f b seg wav
                               @ [ReplyText (transcription_header @ transcription w wav)
                                    (Inl e)]) e
                        | Inr m \<Rightarrow>
                          (case delete w pm of
                             Inl e \<Rightarrow>
                               except_run w s
                                 (transcribed w pm a f b seg wav
                                  @ [ReplyText (transcription_header @ transcription w wav)
                                       (Inr m),
                                     Delete pm (Inl e)]) e
                           | Inr u \<Rightarrow>
                               (Inr (), s,
                                transcribed w pm a f b seg wav
                                @ [ReplyText (transcription_header @ transcription w wav)
                                     (Inr m),
                                   Delete pm (Inr u)])))))))))"
  by (simp add: handle_audio_def message_reply_text_def download_audio_file_run
      process_audio_run except_run_def chosen_def fetched_def transcribed_def io_defs
      split: sum.splits option.splits)

lemma handle_audio_cases [case_names no_message processing_raised no_attachment
    get_file_raised download_raised from_file_raised export_raised reply_raised
    delete_raised completed]:
  obtains
    "message upd = None"
      "handle_audio w upd s =
         (Inl (attribute_error ''reply_text''), s,
          [LogError (''Error processing audio: '' @ str (attribute_error ''reply_text''))])"
  | msg e where "message upd = Some msg" "reply_text w processing_text = Inl e"
      "handle_audio w upd s = except_run w s [ReplyText processing_text (Inl e)] e"
  | msg pm where "message upd = Some msg" "reply_text w processing_text = Inr pm"
      "chosen msg = None"
      "handle_audio w upd s =
         except_run w s [ReplyText processing_text (Inr pm)] (attribute_error ''get_file'')"
  | msg pm a e where "message upd = Some msg" "reply_text w processing_text = Inr pm"
      "chosen msg = Some a" "get_file w a = Inl e"
      "handle_audio w upd s =
         except_run w s [ReplyText processing_text (Inr pm), GetFile a (Inl e)] e"
  | msg pm a f e where "message upd = Some msg" "reply_text w processing_text = Inr pm"
      "chosen msg = Some a" "get_file w a = Inr f" "download_as_bytearray w f = Inl e"
      "handle_audio w upd s =
         except_run w s
           [ReplyText processing_text (Inr pm), GetFile a (Inr f),
            DownloadAsBytearray f (Inl e)] e"
  | msg pm a f b e where "message upd = Some msg" "reply_text w processing_text = Inr pm"
      "chosen msg = Some a" "get_file w a = Inr f" "download_as_bytearray w f = Inr b"
      "from_file w b = Inl e"
      "handle_audio w upd s = except_run w s (fetched pm a f b @ [FromFile b (Inl e)]) e"
  | msg pm a f b seg e where "message upd = Some msg"
      "reply_text w processing_text = Inr pm"
      "chosen msg = Some a" "get_file w a = Inr f" "download_as_bytearray w f = Inr b"
      "from_file w b = Inr seg" "export w seg ''wav'' = Inl e"
      "handle_audio w upd s =
         except_run w s
           (fetched pm a f b @ [FromFile b (Inr seg), Export seg ''wav'' (Inl e)]) e"
  | msg pm a f b seg wav e where "message upd = Some msg"
      "reply_text w processing_text = Inr pm"
      "chosen msg = Some a" "get_file w a = Inr f" "download_as_bytearray w f = Inr b"
      "from_file w b = Inr seg" "export w seg ''wav'' = Inr wav"
      "reply_text w (transcription_header @ transcription w wav) = Inl e"
      "handle_audio w upd s =
         except_run w s
           (transcribed w pm a f b seg wav
            @ [ReplyText (transcription_header @ transcription w wav) (Inl e)]) e"
  | msg pm a f b seg wav m e where "message upd = Some msg"
      "reply_text w processing_text = Inr pm"
      "chosen msg = Some a" "get_file w a = Inr f" "download_as_bytearray w f = Inr b"
      "from_file w b = Inr seg" "export w seg ''wav'' = Inr wav"
      "reply_text w (transcription_header @ transcription w wav) = Inr m"
      "delete w pm = Inl e"
      "handle_audio w upd s =
         except_run w s
           (transcribed w pm a f b seg wav
            @ [ReplyText (transcription_header @ transcription w wav) (Inr m),
               Delete pm (Inl e)]) e"
  | msg pm a f b seg wav m where "message upd = Some msg"
      "reply_text w processing_text = Inr pm"
      "chosen msg = Some a" "get_file w a = Inr f" "download_as_bytearray w f = Inr b"
      "from_file w b = Inr seg" "export w seg ''wav'' = Inr wav"
      "reply_text w (transcription_header @ transcription w wav) = Inr m"
      "delete w pm = Inr ()"
      "handle_audio w upd s =
         (Inr (), s,
          transcribed w pm a f b seg wav
          @ [ReplyText (transcription_header @ transcription w wav) (Inr m),
             Delete pm (Inr ())])"
proof (cases "message upd")
  case None
  then show ?thesis using that(1) by (simp add: handle_audio_no_message)
next
  case msg: (Some msg)
  note run = handle_audio_run [OF msg, of w s]
  show ?thesis
  proof (cases "reply_text w processing_text")
    case (Inl e)
    with msg show ?thesis using that(2) by (simp add: run)
  next
    case pm: (Inr pm)
    show ?thesis
    proof (cases "chosen msg")
      case None
      with msg pm show ?thesis using that(3) by (simp add: run)
    next
      case a: (Some a)
      show ?thesis
      proof (cases "get_file w a")
        case (Inl e)
        with msg pm a show ?thesis using that(4) by (simp add: run)
      next
        case f: (Inr f)
        show ?thesis
        proof (cases "download_as_bytearray w f")
          case (Inl e)
          with msg pm a f show ?thesis using that(5) by (simp add: run)
        next
          case b: (Inr b)
          show ?thesis
          proof (cases "from_file w b")
            case (Inl e)
            with msg pm a f b show ?thesis using that(6) by (simp add: run)
          next
            case seg: (Inr seg)
            show ?thesis
            proof (cases "export w seg ''wav''")
              case (Inl e)
              with msg pm a f b seg show ?thesis using that(7) by (simp add: run)
            next
              case wav: (Inr wav)
              show ?thesis
              proof (cases "reply_text w (transcription_header @ transcription w wav)")
                case (Inl e)
                with msg pm a f b seg wav show ?thesis using that(8) by (simp add: run)
              next
                case m: (Inr m)
                show ?thesis
                proof (cases "delete w pm")
                  case (Inl e)
                  with msg pm a f b seg wav m show ?thesis using that(9)
                    by (simp add: run)
                next
                  case (Inr u)
                  with msg pm a f b seg wav m show ?thesis using that(10)
                    by (simp add: run)
                qed
              qed
            qed
          qed
        qed
      qed
    qed
  qed
qed

subsection \<open>The pieces of a run\<close>

lemmas shapes = fetched_def transcribed_def

lemma trace_except_run [simp]:
  "trace (except_run w s t e) =
     t @ [LogError (''Error processing audio: '' @ str e),
          ReplyText (error_header @ str e) (reply_text w (error_header @ str e))]"
  by (simp add: except_run_def trace_def)

lemma outcome_except_run [simp]:
  "outcome (except_run w s t e) =
     (case reply_text w (error_header @ str e) of Inl e' \<Rightarrow> Inl e' | Inr _ \<Rightarrow> Inr ())"
  by (simp add: except_run_def outcome_def)

lemma final_state_triple [simp]: "final_state (r, s, t) = s"
  by (simp add: final_state_def)

lemma final_state_except_run [simp]: "final_state (except_run w s t e) = s"
  by (simp add: except_run_def)

lemma generate_in_transcribe_events [simp]:
  "GenerateContent m p r \<in> set (transcribe_events w wav) \<longleftrightarrow>
     m = model_name \<and> p = request wav \<and> generate_content w model_name (request wav) = r"
  by (auto simp add: transcribe_events_def split: sum.splits)

lemma others_not_in_transcribe_events [simp]:
  "ReplyText t r1 \<notin> set (transcribe_events w wav)"
  "GetFile a r2 \<notin> set (transcribe_events w wav)"
  "DownloadAsBytearray f r3 \<notin> set (transcribe_events w wav)"
  "FromFile b r4 \<notin> set (transcribe_events w wav)"
  "Export seg fmt r5 \<notin> set (transcribe_events w wav)"
  "Delete pm r6 \<notin> set (transcribe_events w wav)"
  by (simp_all add: transcribe_events_def split: sum.splits)

lemma transcription_returned:
  "generate_content w model_name (request wav) = Inr resp \<Longrightarrow> response_text resp = Inr t
   \<Longrightarrow> transcription w wav = t"
  by (simp add: transcription_def)

lemma transcription_api_raised:
  "generate_content w model_name (request wav) = Inl e
   \<Longrightarrow> transcription w wav = ''Error transcribing audio: '' @ str e"
  by (simp add: transcription_def)


lemma chosen_Some:
  "chosen msg = Some a \<longleftrightarrow> voice msg = Some a \<or> voice msg = None \<and> audio msg = Some a"
  by (simp add: chosen_def split: option.splits)

lemma chosen_None: "chosen msg = None \<longleftrightarrow> voice msg = None \<and> audio msg = None"
  by (simp add: chosen_def split: option.splits)

subsection \<open>The three kinds of reply\<close>

lemma header_reply [simp]: "is_transcription_reply (transcription_header @ t)"
  by (simp add: is_transcription_reply_def)

lemma processing_not_header [simp]: "\<not> is_transcription_reply processing_text"
  by (simp add: is_transcription_reply_def processing_text_def transcription_header_def
      newline_def)

lemma error_not_header [simp]: "\<not> is_transcription_reply (error_header @ t)"
  by (simp add: is_transcription_reply_def error_header_def transcription_header_def
      newline_def)

subsection \<open>The state\<close>

lemma start_run:
  "start w upd s =
     (case message upd of
        None \<Rightarrow> (Inl (attribute_error ''reply_text''), s, [])
      | Some msg \<Rightarrow>
          (case reply_text w welcome_message of Inl e \<Rightarrow> Inl e | Inr _ \<Rightarrow> Inr (),
           s, [ReplyText welcome_message (reply_text w welcome_message)]))"
  by (simp add: start_def message_reply_text_def io_defs split: sum.splits option.splits)

lemma help_command_run:
  "help_command w upd s =
     (case message upd of
        None \<Rightarrow> (Inl (attribute_error ''reply_text''), s, [])
      | Some msg \<Rightarrow>
          (case reply_text w help_message of Inl e \<Rightarrow> Inl e | Inr _ \<Rightarrow> Inr (),
           s, [ReplyText help_message (reply_text w help_message)]))"
  by (simp add: help_command_def message_reply_text_def io_defs
      split: sum.splits option.splits)

lemma start_state: "final_state (start w upd s) = s"
  by (simp add: start_run split: option.splits)

lemma help_command_state: "final_state (help_command w upd s) = s"
  by (simp add: help_command_run split: option.splits)

lemma start_reads_no_state:
  "outcome (start w upd s) = outcome (start w upd s')
   \<and> trace (start w upd s) = trace (start w upd s')"
  by (simp add: start_run split: option.splits)

lemma help_command_reads_no_state:
  "outcome (help_command w upd s) = outcome (help_command w upd s')
   \<and> trace (help_command w upd s) = trace (help_command w upd s')"
  by (simp add: help_command_run split: option.splits)

lemma handle_audio_state: "final_state (handle_audio w upd s) = s"
  by (cases rule: handle_audio_cases [of upd w s]) simp_all

lemma except_run_reads_no_state:
  "outcome (except_run w s t e) = outcome (except_run w s' t e)"
  by simp

lemma handle_audio_reads_no_state:
  "outcome (handle_audio w upd s) = outcome (handle_audio w upd s')
   \<and> trace (handle_audio w upd s) = trace (handle_audio w upd s')"
proof (cases "message upd")
  case None
  then show ?thesis by (simp add: handle_audio_no_message)
next
  case (Some msg)
  show ?thesis
    by (simp add: handle_audio_run [OF Some] split: sum.splits option.splits)
qed

lemma dispatch_state: "final_state (dispatch w h upd s) = s"
  by (cases h) (simp_all add: dispatch_def start_state help_command_state handle_audio_state)

lemma run_updates_state: "run_updates hist s = s"
  by (induction hist arbitrary: s) (auto simp add: dispatch_state)

subsection \<open>Order\<close>

lemma each_preceded_Nil [simp]: "each_preceded P Q []"
  by (simp add: each_preceded_def)

lemma each_preceded_Cons [simp]:
  "each_preceded P Q (x # xs) \<longleftrightarrow> \<not> Q x \<and> (P x \<or> each_preceded P Q xs)"
proof
  assume h: "each_preceded P Q (x # xs)"
  have "\<not> Q x"
  proof
    assume "Q x"
    with h have "\<exists>y \<in> set []. P y"
      unfolding each_preceded_def by (metis append_Nil)
    then show False by simp
  qed
  moreover have "each_preceded P Q xs" if "\<not> P x"
    unfolding each_preceded_def
  proof (intro allI impI)
    fix pre y post
    assume "xs = pre @ y # post \<and> Q y"
    then have "x # xs = (x # pre) @ y # post" and "Q y" by simp_all
    with h have "\<exists>z \<in> set (x # pre). P z"
      unfolding each_preceded_def by blast
    with that show "\<exists>z \<in> set pre. P z" by auto
  qed
  ultimately show "\<not> Q x \<and> (P x \<or> each_preceded P Q xs)" by blast
next
  assume h: "\<not> Q x \<and> (P x \<or> each_preceded P Q xs)"
  show "each_preceded P Q (x # xs)"
    unfolding each_preceded_def
  proof (intro allI impI)
    fix pre y post
    assume a: "x # xs = pre @ y # post \<and> Q y"
    show "\<exists>z \<in> set pre. P z"
    proof (cases pre)
      case Nil
      with a h show ?thesis by simp
    next
      case (Cons p pre')
      with a have px: "p = x" and xs: "xs = pre' @ y # post" by simp_all
      from h consider "P x" | "each_preceded P Q xs" by blast
      then show ?thesis
      proof cases
        case 1
        with Cons px show ?thesis by simp
      next
        case 2
        with xs a have "\<exists>z \<in> set pre'. P z"
          unfolding each_preceded_def by blast
        with Cons show ?thesis by auto
      qed
    qed
  qed
qed

lemma map_filter_append:
  "List.map_filter f (xs @ ys) = List.map_filter f xs @ List.map_filter f ys"
  by (simp add: List.map_filter_def)

lemma stages_transcribe_events:
  "List.map_filter stage (transcribe_events w wav) = [3]"
  by (simp add: transcribe_events_def split: sum.splits)

lemma stages_sorted:
  "sorted_wrt (<) (List.map_filter stage (trace (handle_audio w upd s)))"
  by (cases rule: handle_audio_cases [of upd w s])
     (simp_all add: shapes map_filter_append stages_transcribe_events)

lemma stages_complete:
  "message upd = Some msg \<Longrightarrow> voice msg = Some a \<or> voice msg = None \<and> audio msg = Some a
   \<Longrightarrow> reply_text w processing_text = Inr pm \<Longrightarrow> get_file w a = Inr f
   \<Longrightarrow> download_as_bytearray w f = Inr b \<Longrightarrow> from_file w b = Inr seg
   \<Longrightarrow> export w seg ''wav'' = Inr wav
   \<Longrightarrow> List.map_filter stage (trace (handle_audio w upd s)) = [0, 1, 2, 3, 4]"
  by (cases rule: handle_audio_cases [of upd w s])
     (auto simp add: shapes map_filter_append stages_transcribe_events chosen_Some
        chosen_None)

lemma stages_preceded:
  "each_preceded (\<lambda>y. stage y = Some k \<and> (k < 3 \<longrightarrow> succeeded y))
     (\<lambda>x. stage x = Some (Suc k)) (trace (handle_audio w upd s))"
  by (cases rule: handle_audio_cases [of upd w s])
     (auto simp add: shapes transcribe_events_def split: sum.splits)

subsection \<open>Requests\<close>

lemma requests_append: "requests (xs @ ys) = requests xs @ requests ys"
  by (induction xs rule: requests.induct) simp_all

lemma requests_transcribe_events:
  "requests (transcribe_events w wav) = [(model_name, request wav)]"
  by (simp add: transcribe_events_def split: sum.splits)

lemma requests_of_run:
  "DownloadAsBytearray f (Inr b) \<in> set (trace (handle_audio w upd s)) \<Longrightarrow>
   requests (trace (handle_audio w upd s)) =
     (case from_file w b of
        Inl e \<Rightarrow> []
      | Inr seg \<Rightarrow>
          (case export w seg ''wav'' of
             Inl e \<Rightarrow> []
           | Inr wav \<Rightarrow> [(model_name, request wav)]))"
  by (cases rule: handle_audio_cases [of upd w s])
     (auto simp add: shapes requests_append requests_transcribe_events)

subsection \<open>The voice note\<close>

lemma voice_chosen: "voice msg = Some v \<Longrightarrow> chosen msg = Some v"
  by (simp add: chosen_def)

lemma voice_get_file:
  assumes "message upd = Some msg" and "voice msg = Some v"
    and "GetFile a r \<in> set (trace (handle_audio w upd s))"
  shows "a = v \<and> r = get_file w v"
  using assms voice_chosen [OF assms(2)]
  by (cases rule: handle_audio_cases [of upd w s]) (auto simp add: shapes)

lemma voice_download:
  assumes "message upd = Some msg" and "voice msg = Some v"
    and "DownloadAsBytearray f r \<in> set (trace (handle_audio w upd s))"
  shows "get_file w v = Inr f \<and> r = download_as_bytearray w f"
  using assms voice_chosen [OF assms(2)]
  by (cases rule: handle_audio_cases [of upd w s]) (auto simp add: shapes)

lemma voice_decode:
  assumes "message upd = Some msg" and "voice msg = Some v"
    and "FromFile b r \<in> set (trace (handle_audio w upd s))"
  shows "\<exists>f. get_file w v = Inr f \<and> download_as_bytearray w f = Inr b"
  using assms voice_chosen [OF assms(2)]
  by (cases rule: handle_audio_cases [of upd w s]) (auto simp add: shapes)

lemma voice_request:
  assumes "message upd = Some msg" and "voice msg = Some v"
    and "GenerateContent m p r \<in> set (trace (handle_audio w upd s))"
  shows "\<exists>f b seg wav. get_file w v = Inr f \<and> download_as_bytearray w f = Inr b
               \<and> from_file w b = Inr seg \<and> export w seg ''wav'' = Inr wav
               \<and> p = [InlineData ''audio/wav'' (b64encode wav), Text prompt]"
  using assms voice_chosen [OF assms(2)]
  by (cases rule: handle_audio_cases [of upd w s]) (auto simp add: shapes request_def)


lemma transcribe_audio_outcome_wav:
  "outcome (transcribe_audio w self (BytesIO wav) s) = Inr (transcription w wav)"
  by (simp add: transcribe_audio_run)

lemma voice_reply:
  assumes "message upd = Some msg" and "voice msg = Some v"
    and "ReplyText t r \<in> set (trace (handle_audio w upd s))"
    and "is_transcription_reply t"
  shows "\<exists>f b seg wav text. get_file w v = Inr f \<and> download_as_bytearray w f = Inr b
               \<and> from_file w b = Inr seg \<and> export w seg ''wav'' = Inr wav
               \<and> outcome (transcribe_audio w (transcriber s) (BytesIO wav) s) = Inr text
               \<and> t = transcription_header @ text"
  using assms voice_chosen [OF assms(2)]
  by (cases rule: handle_audio_cases [of upd w s])
     (auto simp add: shapes transcribe_audio_outcome_wav)

lemma voice_progress:
  assumes "message upd = Some msg" and "voice msg = Some v"
    and "reply_text w processing_text = Inr pm" and "get_file w v = Inr f"
    and "download_as_bytearray w f = Inr b" and "from_file w b = Inr seg"
    and "export w seg ''wav'' = Inr wav"
  shows "GetFile v (Inr f) \<in> set (trace (handle_audio w upd s))
         \<and> DownloadAsBytearray f (Inr b) \<in> set (trace (handle_audio w upd s))
         \<and> GenerateContent model_name
              [InlineData ''audio/wav'' (b64encode wav), Text prompt]
              (generate_content w model_name
                 [InlineData ''audio/wav'' (b64encode wav), Text prompt])
             \<in> set (trace (handle_audio w upd s))"
  using assms voice_chosen [OF assms(2)]
  by (cases rule: handle_audio_cases [of upd w s]) (auto simp add: shapes request_def)

lemma get_file_chosen:
  assumes "GetFile a r \<in> set (trace (handle_audio w upd s))"
  shows "\<exists>msg. message upd = Some msg
            \<and> (voice msg = Some a \<or> voice msg = None \<and> audio msg = Some a)"
  using assms
  by (cases rule: handle_audio_cases [of upd w s]) (auto simp add: shapes chosen_Some)

subsection \<open>The example worlds, run\<close>

lemma example_world_simps [simp]:
  "reply_text example_world t = Inr (Message 7)"
  "get_file example_world (Attachment i) = Inr (File i)"
  "download_as_bytearray example_world (File ''voice-1'') = Inr ogg_bytes"
  "download_as_bytearray example_world (File ''audio-1'') = Inr mp3_bytes"
  "download_as_bytearray example_world (File ''audio-2'') = Inr ogg_bytes"
  "from_file example_world b = Inr (AudioSegment b)"
  "export example_world (AudioSegment ogg_bytes) fmt = Inr wav_bytes"
  "generate_content example_world m p = Inr (Response (Inr ''hola''))"
  "delete example_world pm = Inr ()"
  by (simp_all add: example_world_def ogg_bytes_def wav_bytes_def)

lemma offline_world_simps [simp]:
  "reply_text offline_world t = Inr (Message 7)"
  "get_file offline_world (Attachment i) = Inr (File i)"
  "download_as_bytearray offline_world f = Inl (Exception ''timed out'')"
  by (simp_all add: offline_world_def)

lemma quota_world_simps [simp]:
  "reply_text quota_world t = Inr (Message 7)"
  "get_file quota_world (Attachment i) = Inr (File i)"
  "download_as_bytearray quota_world (File ''audio-2'') = Inr ogg_bytes"
  "from_file quota_world b = Inr (AudioSegment b)"
  "export quota_world (AudioSegment ogg_bytes) fmt = Inr wav_bytes"
  "generate_content quota_world m p = Inl (Exception ''quota exceeded'')"
  "delete quota_world pm = Inr ()"
  by (simp_all add: quota_world_def)

lemma flood_world_simps [simp]:
  "reply_text flood_world processing_text = Inr (Message 7)"
  "reply_text flood_world (error_header @ t) = Inl (Exception ''flood control'')"
  "get_file flood_world (Attachment i) = Inr (File i)"
  "download_as_bytearray flood_world f = Inl (Exception ''timed out'')"
  by (simp_all add: flood_world_def processing_text_def error_header_def)

lemma silent_world_simps [simp]:
  "reply_text silent_world t = Inl (Exception ''forbidden'')"
  by (simp add: silent_world_def)

lemma example_updates [simp]:
  "message example_update =
     Some \<lparr>voice = Some (Attachment ''voice-1''), audio = Some (Attachment ''audio-1'')\<rparr>"
  "message audio_update = Some \<lparr>voice = None, audio = Some (Attachment ''audio-2'')\<rparr>"
  "message channel_post = None"
  by (simp_all add: example_update_def audio_update_def channel_post_def)

lemma example_chosen [simp]:
  "chosen \<lparr>voice = Some v, audio = x\<rparr> = Some v"
  "chosen \<lparr>voice = None, audio = x\<rparr> = x"
  by (simp_all add: chosen_def)

lemma example_run:
  "handle_audio example_world example_update s =
     (Inr (), s,
      [ReplyText processing_text (Inr (Message 7)),
       GetFile (Attachment ''voice-1'') (Inr (File ''voice-1'')),
       DownloadAsBytearray (File ''voice-1'') (Inr ogg_bytes),
       FromFile ogg_bytes (Inr (AudioSegment ogg_bytes)),
       Export (AudioSegment ogg_bytes) ''wav'' (Inr wav_bytes),
       GenerateContent model_name (request wav_bytes) (Inr (Response (Inr ''hola''))),
       ReplyText (transcription_header @ ''hola'') (Inr (Message 7)),
       Delete (Message 7) (Inr ())])"
  by (simp add: handle_audio_run [of example_update] shapes transcription_def
      transcribe_events_def)


lemma quota_run:
  "handle_audio quota_world audio_update s =
     (Inr (), s,
      [ReplyText processing_text (Inr (Message 7)),
       GetFile (Attachment ''audio-2'') (Inr (File ''audio-2'')),
       DownloadAsBytearray (File ''audio-2'') (Inr ogg_bytes),
       FromFile ogg_bytes (Inr (AudioSegment ogg_bytes)),
       Export (AudioSegment ogg_bytes) ''wav'' (Inr wav_bytes),
       GenerateContent model_name (request wav_bytes) (Inl (Exception ''quota exceeded'')),
       LogError ''Transcription error: quota exceeded'',
       ReplyText (transcription_header @ ''Error transcribing audio: quota exceeded'')
         (Inr (Message 7)),
       Delete (Message 7) (Inr ())])"
  by (simp add: handle_audio_run [of audio_update] shapes transcription_def
      transcribe_events_def)




section \<open>The claims\<close>

text \<open>
  C1.  For every incoming voice or audio message the steps of the pipeline run in order:
  the download, the transcoding (decoding, then encoding), the call of the remote model,
  the transcription reply.  In the trace of \<open>handle_audio\<close> the steps that occur occur once
  and in this order, and every step that occurs has the step before it earlier in the
  trace, completed: the steps up to the call of the model start only after the step before
  them has returned, and the transcription reply is sent after the call of the model has
  returned or raised.  And the steps do occur: when the message has an attachment, the
  processing message is sent and the file is found, downloaded, decoded and encoded, the
  trace holds all five steps, with the download of that file, the decoding of what was
  downloaded, the encoding of what was decoded, and the request built from what was
  encoded.
\<close>

theorem pipeline_order:
  "sorted_wrt (<) (List.map_filter stage (trace (handle_audio w upd s)))
   \<and> (\<forall>k pre x post.
         trace (handle_audio w upd s) = pre @ x # post \<and> stage x = Some (Suc k) \<longrightarrow>
         (\<exists>y \<in> set pre. stage y = Some k \<and> (k < 3 \<longrightarrow> succeeded y)))
   \<and> (message upd = Some msg
       \<and> (voice msg = Some a \<or> voice msg = None \<and> audio msg = Some a)
       \<and> reply_text w processing_text = Inr pm \<and> get_file w a = Inr f
       \<and> download_as_bytearray w f = Inr b \<and> from_file w b = Inr seg
       \<and> export w seg ''wav'' = Inr wav \<longrightarrow>
       List.map_filter stage (trace (handle_audio w upd s)) = [0, 1, 2, 3, 4]
       \<and> DownloadAsBytearray f (Inr b) \<in> set (trace (handle_audio w upd s))
       \<and> FromFile b (Inr seg) \<in> set (trace (handle_audio w upd s))
       \<and> Export seg ''wav'' (Inr wav) \<in> set (trace (handle_audio w upd s))
       \<and> GenerateContent model_name
            [InlineData ''audio/wav'' (b64encode wav), Text prompt]
            (generate_content w model_name
               [InlineData ''audio/wav'' (b64encode wav), Text prompt])
           \<in> set (trace (handle_audio w upd s)))"
proof (intro conjI)
  show "sorted_wrt (<) (List.map_filter stage (trace (handle_audio w upd s)))"
    by (rule stages_sorted)
next
  show "\<forall>k pre x post.
         trace (handle_audio w upd s) = pre @ x # post \<and> stage x = Some (Suc k) \<longrightarrow>
         (\<exists>y \<in> set pre. stage y = Some k \<and> (k < 3 \<longrightarrow> succeeded y))"
    using stages_preceded [of _ w upd s] unfolding each_preceded_def by blast
next
  show "message upd = Some msg
       \<and> (voice msg = Some a \<or> voice msg = None \<and> audio msg = Some a)
       \<and> reply_text w processing_text = Inr pm \<and> get_file w a = Inr f
       \<and> download_as_bytearray w f = Inr b \<and> from_file w b = Inr seg
       \<and> export w seg ''wav'' = Inr wav \<longrightarrow>
       List.map_filter stage (trace (handle_audio w upd s)) = [0, 1, 2, 3, 4]
       \<and> DownloadAsBytearray f (Inr b) \<in> set (trace (handle_audio w upd s))
       \<and> FromFile b (Inr seg) \<in> set (trace (handle_audio w upd s))
       \<and> Export seg ''wav'' (Inr wav) \<in> set (trace (handle_audio w upd s))
       \<and> GenerateContent model_name
            [InlineData ''audio/wav'' (b64encode wav), Text prompt]
            (generate_content w model_name
               [InlineData ''audio/wav'' (b64encode wav), Text prompt])
           \<in> set (trace (handle_audio w upd s))"
    by (cases rule: handle_audio_cases [of upd w s])
       (auto simp add: shapes map_filter_append stages_transcribe_events chosen_Some
          chosen_None request_def)
qed

theorem pipeline_order_witness:
  "List.map_filter stage (trace (handle_audio example_world example_update init))
     = [0, 1, 2, 3, 4]
   \<and> DownloadAsBytearray (File ''voice-1'') (Inr ogg_bytes)
       \<in> set (trace (handle_audio example_world example_update init))
   \<and> FromFile ogg_bytes (Inr (AudioSegment ogg_bytes))
       \<in> set (trace (handle_audio example_world example_update init))
   \<and> Export (AudioSegment ogg_bytes) ''wav'' (Inr wav_bytes)
       \<in> set (trace (handle_audio example_world example_update init))
   \<and> GenerateContent model_name [InlineData ''audio/wav'' ''UklGRk9nZ1M='', Text prompt]
         (Inr (Response (Inr ''hola'')))
       \<in> set (trace (handle_audio example_world example_update init))
   \<and> (\<exists>y \<in> set (take 5 (trace (handle_audio example_world example_update init))).
         stage y = Some 2 \<and> succeeded y)"
proof -
  note po = pipeline_order [of example_world example_update init
      "\<lparr>voice = Some (Attachment ''voice-1''), audio = Some (Attachment ''audio-1'')\<rparr>"
      "Attachment ''voice-1''" "Message 7" "File ''voice-1''" ogg_bytes
      "AudioSegment ogg_bytes" wav_bytes]
  from po have progress:
    "List.map_filter stage (trace (handle_audio example_world example_update init))
       = [0, 1, 2, 3, 4]
     \<and> DownloadAsBytearray (File ''voice-1'') (Inr ogg_bytes)
         \<in> set (trace (handle_audio example_world example_update init))
     \<and> FromFile ogg_bytes (Inr (AudioSegment ogg_bytes))
         \<in> set (trace (handle_audio example_world example_update init))
     \<and> Export (AudioSegment ogg_bytes) ''wav'' (Inr wav_bytes)
         \<in> set (trace (handle_audio example_world example_update init))
     \<and> GenerateContent model_name [InlineData ''audio/wav'' ''UklGRk9nZ1M='', Text prompt]
           (Inr (Response (Inr ''hola'')))
         \<in> set (trace (handle_audio example_world example_update init))"
    by (simp add: b64encode_wav_bytes)
  have run: "trace (handle_audio example_world example_update init) =
      take 5 (trace (handle_audio example_world example_update init))
      @ GenerateContent model_name (request wav_bytes) (Inr (Response (Inr ''hola'')))
      # [ReplyText (transcription_header @ ''hola'') (Inr (Message 7)),
         Delete (Message 7) (Inr ())]"
    by (simp add: example_run)
  have step: "stage (GenerateContent model_name (request wav_bytes)
      (Inr (Response (Inr ''hola'')))) = Some (Suc 2)"
    by simp
  from po have "\<forall>k pre x post.
      trace (handle_audio example_world example_update init) = pre @ x # post
      \<and> stage x = Some (Suc k) \<longrightarrow>
      (\<exists>y \<in> set pre. stage y = Some k \<and> (k < 3 \<longrightarrow> succeeded y))"
    by blast
  with run step
  have "\<exists>y \<in> set (take 5 (trace (handle_audio example_world example_update init))).
      stage y = Some 2 \<and> (2 < (3::nat) \<longrightarrow> succeeded y)"
    by blast
  with progress show ?thesis by simp
qed

text \<open>
  C2.  When the pipeline of an audio message completes, that is when the remote model has
  returned a response with a text, the reply sent to the user is the header
  \<open>transcription_header\<close> followed by exactly that text, and no other reply of the run
  starts with the header.
\<close>

theorem relayed_text:
  "GenerateContent m p (Inr resp) \<in> set (trace (handle_audio w upd s)) \<Longrightarrow>
   response_text resp = Inr t \<Longrightarrow>
   ReplyText (transcription_header @ t) (reply_text w (transcription_header @ t))
     \<in> set (trace (handle_audio w upd s))
   \<and> (\<forall>t' r. ReplyText t' r \<in> set (trace (handle_audio w upd s)) \<longrightarrow>
         is_transcription_reply t' \<longrightarrow> t' = transcription_header @ t)"
  by (cases rule: handle_audio_cases [of upd w s])
     (auto simp add: shapes transcription_returned)

theorem relayed_text_witness:
  "GenerateContent model_name (request wav_bytes) (Inr (Response (Inr ''hola'')))
     \<in> set (trace (handle_audio example_world example_update init))
   \<and> response_text (Response (Inr ''hola'')) = Inr ''hola''
   \<and> ReplyText (transcription_header @ ''hola'') (Inr (Message 7))
     \<in> set (trace (handle_audio example_world example_update init))"
proof -
  have h: "GenerateContent model_name (request wav_bytes) (Inr (Response (Inr ''hola'')))
     \<in> set (trace (handle_audio example_world example_update init))"
    by (simp add: example_run)
  have t: "response_text (Response (Inr ''hola'')) = Inr ''hola''"
    by simp
  from relayed_text [OF h t] h t show ?thesis by simp
qed

text \<open>
  C3.  Every request sent to the remote model carries, as inline data of mime type
  \<open>audio/wav\<close>, the base64 encoding of all the bytes the WAV encoder produced from the
  downloaded audio, together with the prompt; the downloaded bytes themselves are never
  the payload.
\<close>

theorem payload_is_wav:
  "GenerateContent m p r \<in> set (trace (handle_audio w upd s)) \<Longrightarrow>
   \<exists>f b seg wav.
     DownloadAsBytearray f (Inr b) \<in> set (trace (handle_audio w upd s))
     \<and> from_file w b = Inr seg \<and> export w seg ''wav'' = Inr wav
     \<and> m = model_name \<and> p = [InlineData ''audio/wav'' (b64encode wav), Text prompt]"
  by (cases rule: handle_audio_cases [of upd w s]) (auto simp add: shapes request_def)

theorem payload_is_wav_witness:
  "GenerateContent model_name [InlineData ''audio/wav'' ''UklGRk9nZ1M='', Text prompt]
     (Inr (Response (Inr ''hola'')))
     \<in> set (trace (handle_audio example_world example_update init))
   \<and> (\<exists>f b seg wav.
        DownloadAsBytearray f (Inr b)
          \<in> set (trace (handle_audio example_world example_update init))
        \<and> from_file example_world b = Inr seg \<and> export example_world seg ''wav'' = Inr wav
        \<and> [InlineData ''audio/wav'' ''UklGRk9nZ1M='', Text prompt]
            = [InlineData ''audio/wav'' (b64encode wav), Text prompt])"
proof -
  have h: "GenerateContent model_name [InlineData ''audio/wav'' ''UklGRk9nZ1M='', Text prompt]
     (Inr (Response (Inr ''hola'')))
     \<in> set (trace (handle_audio example_world example_update init))"
    by (simp add: example_run request_def b64encode_wav_bytes)
  from payload_is_wav [OF h] h show ?thesis by simp
qed




text \<open>
  C6.  Handling \<open>/start\<close>, \<open>/help\<close> or an audio message leaves the state of the bot as it
  was: the dictionaries of the \<open>TelegramBot\<close> and of its \<open>AudioTranscriber\<close> hold after the
  handler what they held before, whatever they held, whatever the world answers and
  whether the handler returns or raises; so it is after any history of updates.  And no
  handler reads the state: from two different states it does the same calls and ends the
  same way, so nothing kept in the state could be used by a later update.
\<close>

theorem state_unchanged:
  "final_state (start w upd s) = s \<and> final_state (help_command w upd s) = s
   \<and> final_state (handle_audio w upd s) = s \<and> run_updates hist s = s
   \<and> outcome (dispatch w h upd s) = outcome (dispatch w h upd s')
   \<and> trace (dispatch w h upd s) = trace (dispatch w h upd s')"
  by (cases h)
     (simp_all add: start_state help_command_state handle_audio_state run_updates_state
        dispatch_def start_reads_no_state help_command_reads_no_state
        handle_audio_reads_no_state)

theorem state_unchanged_witness:
  "final_state (start offline_world audio_update busy_bot) = busy_bot
   \<and> final_state (help_command quota_world channel_post busy_bot) = busy_bot
   \<and> final_state (handle_audio flood_world example_update busy_bot) = busy_bot
   \<and> run_updates [(example_world, HandleAudio, example_update),
                   (quota_world, HandleAudio, audio_update),
                   (offline_world, Start, channel_post)] busy_bot = busy_bot
   \<and> busy_bot \<noteq> init
   \<and> trace (dispatch example_world HandleAudio example_update busy_bot)
       = trace (dispatch example_world HandleAudio example_update init)"
proof -
  have "busy_bot \<noteq> init"
    by (simp add: busy_bot_def init_def)
  with state_unchanged [of offline_world audio_update busy_bot]
    state_unchanged [of quota_world channel_post busy_bot]
    state_unchanged [of flood_world example_update busy_bot
      "[(example_world, HandleAudio, example_update),
        (quota_world, HandleAudio, audio_update),
        (offline_world, Start, channel_post)]"]
    state_unchanged [of example_world example_update busy_bot _ HandleAudio init]
  show ?thesis by simp
qed

text \<open>
  C7.  The request sent to the remote model depends on the audio bytes only.  Take two runs
  of \<open>handle_audio\<close>, in two worlds with the same transcoder, after any two histories of
  updates, from any two states, for any two messages: when both download the same bytes,
  both send the same requests; and when the transcoder accepts the bytes, the request is
  sent again in the second run, nothing being reused.
\<close>

theorem request_depends_on_audio_only:
  assumes "from_file w1 = from_file w2" and "export w1 = export w2"
    and "DownloadAsBytearray f1 (Inr b)
           \<in> set (trace (handle_audio w1 upd1 (run_updates hist1 s1)))"
    and "DownloadAsBytearray f2 (Inr b)
           \<in> set (trace (handle_audio w2 upd2 (run_updates hist2 s2)))"
  shows "requests (trace (handle_audio w1 upd1 (run_updates hist1 s1))) =
         requests (trace (handle_audio w2 upd2 (run_updates hist2 s2)))
         \<and> (\<forall>seg wav. from_file w1 b = Inr seg \<and> export w1 seg ''wav'' = Inr wav \<longrightarrow>
               requests (trace (handle_audio w2 upd2 (run_updates hist2 s2))) =
                 [(model_name, [InlineData ''audio/wav'' (b64encode wav), Text prompt])])"
  using assms(1,2) requests_of_run [OF assms(3)] requests_of_run [OF assms(4)]
  by (auto simp add: request_def split: sum.splits)

theorem request_depends_on_audio_only_witness:
  "from_file example_world = from_file quota_world
   \<and> export example_world = export quota_world
   \<and> DownloadAsBytearray (File ''voice-1'') (Inr ogg_bytes)
       \<in> set (trace (handle_audio example_world example_update (run_updates [] init)))
   \<and> DownloadAsBytearray (File ''audio-2'') (Inr ogg_bytes)
       \<in> set (trace (handle_audio quota_world audio_update
                 (run_updates [(example_world, HandleAudio, example_update)] init)))
   \<and> requests (trace (handle_audio example_world example_update (run_updates [] init))) =
       requests (trace (handle_audio quota_world audio_update
                  (run_updates [(example_world, HandleAudio, example_update)] init)))
   \<and> requests (trace (handle_audio quota_world audio_update
                  (run_updates [(example_world, HandleAudio, example_update)] init))) =
       [(model_name, [InlineData ''audio/wav'' ''UklGRk9nZ1M='', Text prompt])]"
proof -
  have a: "from_file example_world = from_file quota_world"
    by (simp add: quota_world_def)
  have b: "export example_world = export quota_world"
    by (simp add: quota_world_def)
  have c: "DownloadAsBytearray (File ''voice-1'') (Inr ogg_bytes)
       \<in> set (trace (handle_audio example_world example_update (run_updates [] init)))"
    by (simp add: example_run)
  have d: "DownloadAsBytearray (File ''audio-2'') (Inr ogg_bytes)
       \<in> set (trace (handle_audio quota_world audio_update
                 (run_updates [(example_world, HandleAudio, example_update)] init)))"
    by (simp add: quota_run)
  have e: "from_file example_world ogg_bytes = Inr (AudioSegment ogg_bytes)
      \<and> export example_world (AudioSegment ogg_bytes) ''wav'' = Inr wav_bytes"
    by simp
  from request_depends_on_audio_only [OF a b c d] a b c d e show ?thesis
    by (simp add: b64encode_wav_bytes)
qed

text \<open>
  C8.  \<open>transcribe_audio\<close> never raises: it returns the text of the model's response, or,
  when the call or the reading of the text raises, \<open>Error transcribing audio:\<close> followed by
  the description of the exception.  So a failure of the remote call stays on the success
  path of \<open>handle_audio\<close>: the error text is sent under the transcription header, and when
  that reply is delivered the handler goes on to delete the processing message and returns
  when the deletion does.
\<close>

theorem transcribe_audio_never_raises:
  "outcome (transcribe_audio w self audio_file s) =
     Inr (case generate_content w model_name
                 [InlineData ''audio/wav'' (b64encode (fst (bytesio_read audio_file))),
                  Text prompt] of
            Inl e \<Rightarrow> ''Error transcribing audio: '' @ str e
          | Inr resp \<Rightarrow>
              (case response_text resp of
                 Inl e \<Rightarrow> ''Error transcribing audio: '' @ str e
               | Inr t \<Rightarrow> t))
   \<and> (GenerateContent m p (Inl e) \<in> set (trace (handle_audio w upd s')) \<longrightarrow>
        ReplyText (transcription_header @ ''Error transcribing audio: '' @ str e)
          (reply_text w (transcription_header @ ''Error transcribing audio: '' @ str e))
          \<in> set (trace (handle_audio w upd s'))
        \<and> (\<forall>sent. reply_text w (transcription_header @ ''Error transcribing audio: '' @ str e)
                     = Inr sent \<longrightarrow>
              (\<exists>pm. Delete pm (delete w pm) \<in> set (trace (handle_audio w upd s'))
                    \<and> (delete w pm = Inr () \<longrightarrow> outcome (handle_audio w upd s') = Inr ()))))"
proof
  show "outcome (transcribe_audio w self audio_file s) =
     Inr (case generate_content w model_name
                 [InlineData ''audio/wav'' (b64encode (fst (bytesio_read audio_file))),
                  Text prompt] of
            Inl e \<Rightarrow> ''Error transcribing audio: '' @ str e
          | Inr resp \<Rightarrow>
              (case response_text resp of
                 Inl e \<Rightarrow> ''Error transcribing audio: '' @ str e
               | Inr t \<Rightarrow> t))"
    by (rule transcribe_audio_outcome)
next
  show "GenerateContent m p (Inl e) \<in> set (trace (handle_audio w upd s')) \<longrightarrow>
        ReplyText (transcription_header @ ''Error transcribing audio: '' @ str e)
          (reply_text w (transcription_header @ ''Error transcribing audio: '' @ str e))
          \<in> set (trace (handle_audio w upd s'))
        \<and> (\<forall>sent. reply_text w (transcription_header @ ''Error transcribing audio: '' @ str e)
                     = Inr sent \<longrightarrow>
              (\<exists>pm. Delete pm (delete w pm) \<in> set (trace (handle_audio w upd s'))
                    \<and> (delete w pm = Inr () \<longrightarrow> outcome (handle_audio w upd s') = Inr ())))"
    by (cases rule: handle_audio_cases [of upd w s'])
       (auto simp add: shapes transcription_api_raised)
qed

theorem transcribe_audio_never_raises_witness:
  "outcome (transcribe_audio quota_world AudioTranscriber (BytesIO wav_bytes) init) =
     Inr ''Error transcribing audio: quota exceeded''
   \<and> GenerateContent model_name (request wav_bytes) (Inl (Exception ''quota exceeded''))
       \<in> set (trace (handle_audio quota_world audio_update init))
   \<and> ReplyText (transcription_header @ ''Error transcribing audio: quota exceeded'')
       (Inr (Message 7))
       \<in> set (trace (handle_audio quota_world audio_update init))
   \<and> outcome (handle_audio quota_world audio_update init) = Inr ()"
proof -
  have g: "GenerateContent model_name (request wav_bytes) (Inl (Exception ''quota exceeded''))
       \<in> set (trace (handle_audio quota_world audio_update init))"
    by (simp add: quota_run)
  have o: "outcome (handle_audio quota_world audio_update init) = Inr ()"
    by (simp add: quota_run)
  from g o transcribe_audio_never_raises [of quota_world AudioTranscriber
      "BytesIO wav_bytes" init model_name "request wav_bytes" "Exception ''quota exceeded''"
      audio_update init]
  show ?thesis by simp
qed




text \<open>
  C10.  When the message carries a voice note, the file of the voice note is the one asked
  for, downloaded, decoded, encoded and sent to the model, and the transcription reply
  carries what \<open>transcribe_audio\<close> returns for it, also when an audio attachment is present;
  when the calls up to the encoding return, the request with the audio of the voice note is
  sent.  The file of the audio attachment is asked for only when there is no voice note.
\<close>

theorem voice_preferred:
  "(message upd = Some msg \<and> voice msg = Some v \<longrightarrow>
      (\<forall>a r. GetFile a r \<in> set (trace (handle_audio w upd s)) \<longrightarrow> a = v \<and> r = get_file w v)
      \<and> (\<forall>f r. DownloadAsBytearray f r \<in> set (trace (handle_audio w upd s)) \<longrightarrow>
            get_file w v = Inr f \<and> r = download_as_bytearray w f)
      \<and> (\<forall>b r. FromFile b r \<in> set (trace (handle_audio w upd s)) \<longrightarrow>
            (\<exists>f. get_file w v = Inr f \<and> download_as_bytearray w f = Inr b))
      \<and> (\<forall>m p r. GenerateContent m p r \<in> set (trace (handle_audio w upd s)) \<longrightarrow>
            (\<exists>f b seg wav. get_file w v = Inr f \<and> download_as_bytearray w f = Inr b
               \<and> from_file w b = Inr seg \<and> export w seg ''wav'' = Inr wav
               \<and> p = [InlineData ''audio/wav'' (b64encode wav), Text prompt]))
      \<and> (\<forall>t r. ReplyText t r \<in> set (trace (handle_audio w upd s))
                \<and> is_transcription_reply t \<longrightarrow>
            (\<exists>f b seg wav text. get_file w v = Inr f \<and> download_as_bytearray w f = Inr b
               \<and> from_file w b = Inr seg \<and> export w seg ''wav'' = Inr wav
               \<and> outcome (transcribe_audio w (transcriber s) (BytesIO wav) s) = Inr text
               \<and> t = transcription_header @ text))
      \<and> (\<forall>pm f b seg wav.
            reply_text w processing_text = Inr pm \<and> get_file w v = Inr f
            \<and> download_as_bytearray w f = Inr b \<and> from_file w b = Inr seg
            \<and> export w seg ''wav'' = Inr wav \<longrightarrow>
            GetFile v (Inr f) \<in> set (trace (handle_audio w upd s))
            \<and> DownloadAsBytearray f (Inr b) \<in> set (trace (handle_audio w upd s))
            \<and> GenerateContent model_name
                 [InlineData ''audio/wav'' (b64encode wav), Text prompt]
                 (generate_content w model_name
                    [InlineData ''audio/wav'' (b64encode wav), Text prompt])
                \<in> set (trace (handle_audio w upd s))))
   \<and> (\<forall>a r. GetFile a r \<in> set (trace (handle_audio w upd s)) \<longrightarrow>
         (\<exists>msg'. message upd = Some msg'
            \<and> (voice msg' = Some a \<or> voice msg' = None \<and> audio msg' = Some a)))"
proof (intro conjI impI allI)
  fix a r
  assume "GetFile a r \<in> set (trace (handle_audio w upd s))"
  then show "\<exists>msg'. message upd = Some msg'
            \<and> (voice msg' = Some a \<or> voice msg' = None \<and> audio msg' = Some a)"
    by (rule get_file_chosen)
next
  fix a r
  assume "message upd = Some msg \<and> voice msg = Some v"
    and "GetFile a r \<in> set (trace (handle_audio w upd s))"
  then show "a = v" and "r = get_file w v"
    using voice_get_file [of upd msg v a r w s] by simp_all
next
  fix f r
  assume "message upd = Some msg \<and> voice msg = Some v"
    and "DownloadAsBytearray f r \<in> set (trace (handle_audio w upd s))"
  then show "get_file w v = Inr f" and "r = download_as_bytearray w f"
    using voice_download [of upd msg v f r w s] by simp_all
next
  fix b r
  assume "message upd = Some msg \<and> voice msg = Some v"
    and "FromFile b r \<in> set (trace (handle_audio w upd s))"
  then show "\<exists>f. get_file w v = Inr f \<and> download_as_bytearray w f = Inr b"
    using voice_decode [of upd msg v b r w s] by simp
next
  fix m p r
  assume "message upd = Some msg \<and> voice msg = Some v"
    and "GenerateContent m p r \<in> set (trace (handle_audio w upd s))"
  then show "\<exists>f b seg wav. get_file w v = Inr f \<and> download_as_bytearray w f = Inr b
               \<and> from_file w b = Inr seg \<and> export w seg ''wav'' = Inr wav
               \<and> p = [InlineData ''audio/wav'' (b64encode wav), Text prompt]"
    using voice_request [of upd msg v m p r w s] by simp
next
  fix t r
  assume "message upd = Some msg \<and> voice msg = Some v"
    and "ReplyText t r \<in> set (trace (handle_audio w upd s)) \<and> is_transcription_reply t"
  then show "\<exists>f b seg wav text. get_file w v = Inr f \<and> download_as_bytearray w f = Inr b
               \<and> from_file w b = Inr seg \<and> export w seg ''wav'' = Inr wav
               \<and> outcome (transcribe_audio w (transcriber s) (BytesIO wav) s) = Inr text
               \<and> t = transcription_header @ text"
    using voice_reply [of upd msg v t r w s] by simp
next
  fix pm f b seg wav
  assume h: "message upd = Some msg \<and> voice msg = Some v"
    and c: "reply_text w processing_text = Inr pm \<and> get_file w v = Inr f
            \<and> download_as_bytearray w f = Inr b \<and> from_file w b = Inr seg
            \<and> export w seg ''wav'' = Inr wav"
  from h c have p: "GetFile v (Inr f) \<in> set (trace (handle_audio w upd s))
         \<and> DownloadAsBytearray f (Inr b) \<in> set (trace (handle_audio w upd s))
         \<and> GenerateContent model_name
              [InlineData ''audio/wav'' (b64encode wav), Text prompt]
              (generate_content w model_name
                 [InlineData ''audio/wav'' (b64encode wav), Text prompt])
             \<in> set (trace (handle_audio w upd s))"
    using voice_progress [of upd msg v w pm f b seg wav s] by simp
  from p show "GetFile v (Inr f) \<in> set (trace (handle_audio w upd s))" by simp
  from p show "DownloadAsBytearray f (Inr b) \<in> set (trace (handle_audio w upd s))" by simp
  from p show "GenerateContent model_name
              [InlineData ''audio/wav'' (b64encode wav), Text prompt]
              (generate_content w model_name
                 [InlineData ''audio/wav'' (b64encode wav), Text prompt])
             \<in> set (trace (handle_audio w upd s))" by simp
qed


theorem voice_preferred_witness:
  "message example_update =
     Some \<lparr>voice = Some (Attachment ''voice-1''), audio = Some (Attachment ''audio-1'')\<rparr>
   \<and> download_as_bytearray example_world (File ''voice-1'') = Inr ogg_bytes
   \<and> download_as_bytearray example_world (File ''audio-1'') = Inr mp3_bytes
   \<and> GetFile (Attachment ''voice-1'') (Inr (File ''voice-1''))
       \<in> set (trace (handle_audio example_world example_update init))
   \<and> GetFile (Attachment ''audio-1'') (Inr (File ''audio-1''))
       \<notin> set (trace (handle_audio example_world example_update init))
   \<and> DownloadAsBytearray (File ''voice-1'') (Inr ogg_bytes)
       \<in> set (trace (handle_audio example_world example_update init))
   \<and> DownloadAsBytearray (File ''audio-1'') (Inr mp3_bytes)
       \<notin> set (trace (handle_audio example_world example_update init))
   \<and> GenerateContent model_name [InlineData ''audio/wav'' ''UklGRk9nZ1M='', Text prompt]
         (Inr (Response (Inr ''hola'')))
       \<in> set (trace (handle_audio example_world example_update init))
   \<and> b64encode ([0x52, 0x49, 0x46, 0x46] @ mp3_bytes) = ''UklGRklEMw==''
   \<and> GenerateContent model_name [InlineData ''audio/wav'' ''UklGRklEMw=='', Text prompt]
         (Inr (Response (Inr ''hola'')))
       \<notin> set (trace (handle_audio example_world example_update init))"
proof -
  have chosen: "message example_update =
      Some \<lparr>voice = Some (Attachment ''voice-1''), audio = Some (Attachment ''audio-1'')\<rparr>
    \<and> voice \<lparr>voice = Some (Attachment ''voice-1''), audio = Some (Attachment ''audio-1'')\<rparr>
        = Some (Attachment ''voice-1'')"
    by simp
  note body = voice_preferred [of example_update
      "\<lparr>voice = Some (Attachment ''voice-1''), audio = Some (Attachment ''audio-1'')\<rparr>"
      "Attachment ''voice-1''" example_world init, THEN conjunct1, THEN mp, OF chosen]
  note asked = body [THEN conjunct1]
  note downloaded = body [THEN conjunct2, THEN conjunct1]
  note requested = body [THEN conjunct2, THEN conjunct2, THEN conjunct2, THEN conjunct1]
  note progress = body [THEN conjunct2, THEN conjunct2, THEN conjunct2, THEN conjunct2,
      THEN conjunct2, THEN spec [of _ "Message 7"], THEN spec [of _ "File ''voice-1''"],
      THEN spec [of _ ogg_bytes], THEN spec [of _ "AudioSegment ogg_bytes"],
      THEN spec [of _ wav_bytes]]
  have other: "b64encode ([0x52, 0x49, 0x46, 0x46] @ mp3_bytes) = ''UklGRklEMw==''"
    by (simp add: mp3_bytes_def b64_char_def b64_alphabet_def)
  from progress have yes:
    "GetFile (Attachment ''voice-1'') (Inr (File ''voice-1''))
       \<in> set (trace (handle_audio example_world example_update init))
     \<and> DownloadAsBytearray (File ''voice-1'') (Inr ogg_bytes)
       \<in> set (trace (handle_audio example_world example_update init))
     \<and> GenerateContent model_name [InlineData ''audio/wav'' ''UklGRk9nZ1M='', Text prompt]
         (Inr (Response (Inr ''hola'')))
       \<in> set (trace (handle_audio example_world example_update init))"
    by (simp add: b64encode_wav_bytes)
  have no_file:
    "GetFile (Attachment ''audio-1'') (Inr (File ''audio-1''))
       \<notin> set (trace (handle_audio example_world example_update init))"
  proof
    assume "GetFile (Attachment ''audio-1'') (Inr (File ''audio-1''))
       \<in> set (trace (handle_audio example_world example_update init))"
    with asked have "Attachment ''audio-1'' = Attachment ''voice-1''" by blast
    then show False by simp
  qed
  have no_download:
    "DownloadAsBytearray (File ''audio-1'') (Inr mp3_bytes)
       \<notin> set (trace (handle_audio example_world example_update init))"
  proof
    assume "DownloadAsBytearray (File ''audio-1'') (Inr mp3_bytes)
       \<in> set (trace (handle_audio example_world example_update init))"
    with downloaded
    have "get_file example_world (Attachment ''voice-1'') = Inr (File ''audio-1'')"
      by blast
    then show False by simp
  qed
  have no_request:
    "GenerateContent model_name [InlineData ''audio/wav'' ''UklGRklEMw=='', Text prompt]
         (Inr (Response (Inr ''hola'')))
       \<notin> set (trace (handle_audio example_world example_update init))"
  proof
    assume "GenerateContent model_name [InlineData ''audio/wav'' ''UklGRklEMw=='', Text prompt]
         (Inr (Response (Inr ''hola'')))
       \<in> set (trace (handle_audio example_world example_update init))"
    with requested obtain f b seg wav where
      "get_file example_world (Attachment ''voice-1'') = Inr f"
      "download_as_bytearray example_world f = Inr b"
      "from_file example_world b = Inr seg"
      "export example_world seg ''wav'' = Inr wav"
      "[InlineData ''audio/wav'' ''UklGRklEMw=='', Text prompt]
         = [InlineData ''audio/wav'' (b64encode wav), Text prompt]"
      by blast
    then have "b64encode wav_bytes = ''UklGRklEMw==''"
      by auto
    then show False by (simp add: b64encode_wav_bytes)
  qed
  from yes no_file no_download no_request other show ?thesis by simp
qed

end
